theory Spec2Isabelle
  imports Main
begin

section \<open>The Keycloak client: request construction and execution\<close>

text \<open>
  The development follows \<^verbatim>\<open>keycloak.go\<close>: the client configuration, the request
  builder \<^verbatim>\<open>newRequest\<close> and the executor \<^verbatim>\<open>do\<close>. Calls into Go's standard library
  (\<^verbatim>\<open>net/url\<close>, \<^verbatim>\<open>net/http\<close>, \<^verbatim>\<open>encoding/json\<close>, \<^verbatim>\<open>io\<close>) and into the token service are
  the boundary of the program: each is either a field of an environment record or a small
  definition that follows the documented behaviour of the library function.
\<close>

subsection \<open>Constants\<close>

definition formEncoded :: string where
  "formEncoded = ''application/x-www-form-urlencoded''"

definition passwordGrant :: string where
  "passwordGrant = ''password''"

definition clientGrant :: string where
  "clientGrant = ''client_credentials''"

definition offlineScope :: string where
  "offlineScope = ''offline_access''"

subsection \<open>Data model\<close>

text \<open>
  Error values produced by the libraries: \<^verbatim>\<open>io.EOF\<close>, the two context errors, and any
  other library error, identified by its message.
\<close>

datatype fault = EOF | Canceled | DeadlineExceeded | Failure string

text \<open>
  A response body (\<^verbatim>\<open>io.ReadCloser\<close>): the bytes a reader obtains from it, and the
  error that ends the stream, \<open>None\<close> for a clean end of file.
\<close>

record ReadCloser =
  content :: string
  readErr :: "fault option"

text \<open>\<^verbatim>\<open>http.Response\<close>, with the fields the executor reads.\<close>

record http_Response =
  StatusCode :: int
  Body :: ReadCloser

text \<open>\<^verbatim>\<open>Response{Response *http.Response}\<close>, the success wrapper.\<close>

record Response =
  Response :: http_Response

text \<open>
  \<^verbatim>\<open>ErrorResponse{Response *http.Response; Message string `json:"error_description"`}\<close>.
  The first field is a pointer: \<open>None\<close> is \<^verbatim>\<open>nil\<close>.
\<close>

record ErrorResponse =
  err_Response :: "http_Response option"
  Message :: string

text \<open>A Go \<^verbatim>\<open>error\<close> as the executor returns it: a library error or an \<^verbatim>\<open>*ErrorResponse\<close>.\<close>

datatype error = Fault fault | UpstreamError ErrorResponse

text \<open>
  \<^verbatim>\<open>OIDCToken\<close> and \<^verbatim>\<open>AccessGrantRequest\<close> are declared outside \<^verbatim>\<open>keycloak.go\<close>; the
  records hold the fields that \<^verbatim>\<open>newRequest\<close> reads and writes.
\<close>

record OIDCToken =
  AccessToken :: string

record AccessGrantRequest =
  GrantType :: string
  Scope :: string
  Username :: string
  Password :: string

text \<open>The zero value \<^verbatim>\<open>&AccessGrantRequest{}\<close>.\<close>

definition emptyGrant :: AccessGrantRequest where
  "emptyGrant = \<lparr>GrantType = '''', Scope = '''', Username = '''', Password = ''''\<rparr>"

type_synonym url = string

text \<open>
  The configuration fields of \<^verbatim>\<open>Client\<close> and its token slot. \<open>baseURL\<close> is the parsed
  base: \<^verbatim>\<open>newClient\<close> drops the error of \<^verbatim>\<open>url.Parse\<close>, and a client whose base did not
  parse holds a nil pointer there, which is not a value of this record.
\<close>

record Client =
  baseURL :: url
  realm :: string
  hasOfflineAccess :: bool
  isServiceAccount :: bool
  isConfidential :: bool
  clientID :: string
  clientSecret :: string
  adminAccount :: string
  adminPass :: string
  adminOIDC :: OIDCToken

record headers =
  authorization :: string
  contentType :: string

text \<open>\<^verbatim>\<open>context.Context\<close>: \<open>Err\<close> is \<open>None\<close> until the context is done.\<close>

record Context =
  Err :: "fault option"

text \<open>
  \<^verbatim>\<open>http.Request\<close>: method, resolved URL, the entity bytes (\<open>None\<close> for no body), the
  header map, and the context attached by \<^verbatim>\<open>WithContext\<close>.
\<close>

record Request =
  Method :: string
  URL :: url
  Entity :: "string option"
  Header :: "string \<rightharpoonup> string"
  Ctx :: "Context option"

subsection \<open>JSON values\<close>

text \<open>
  The JSON data model of a Go value handed to \<^verbatim>\<open>encoding/json\<close>. Object members keep
  their order. \<open>JUnsupported\<close> stands for a Go value the encoder rejects (a channel, a
  function). Numbers are integers.
\<close>

datatype json =
    JNull
  | JBool bool
  | JNumber int
  | JString string
  | JArray "json list"
  | JObject "(string \<times> json) list"
  | JUnsupported

subsection \<open>Library model: the JSON encoder\<close>

text \<open>
  \<^verbatim>\<open>encoding/json\<close> writes a string between double quotes, byte by byte. A byte below
  \<open>0x80\<close> is copied when it is printable and is neither the quote nor the backslash, and,
  when HTML escaping is on, none of \<^verbatim>\<open><\<close>, \<^verbatim>\<open>>\<close>, \<^verbatim>\<open>&\<close>. Otherwise the quote and the
  backslash get a backslash in front, line feed, carriage return and tab their short
  escapes, and every other such byte the six characters \<^verbatim>\<open>\u00XX\<close> in lower-case
  hexadecimal. (Toolchains from Go 1.22 on shorten two more control characters, backspace
  and form feed; nothing below depends on them.)
\<close>

definition hex :: "nat \<Rightarrow> char" where
  "hex n = ''0123456789abcdef'' ! (n mod 16)"

definition backslash :: char where
  "backslash = CHR 0x5C"

definition dquote :: char where
  "dquote = CHR 0x22"

definition escape_byte :: "bool \<Rightarrow> char \<Rightarrow> string" where
  "escape_byte escapeHTML b =
     (if 32 \<le> (of_char b :: nat) \<and> b \<noteq> dquote \<and> b \<noteq> backslash \<and>
         \<not> (escapeHTML \<and> (b = CHR ''<'' \<or> b = CHR ''>'' \<or> b = CHR ''&''))
      then [b]
      else if b = backslash \<or> b = dquote then [backslash, b]
      else if b = CHR 0x0A then [backslash, CHR ''n'']
      else if b = CHR 0x0D then [backslash, CHR ''r'']
      else if b = CHR 0x09 then [backslash, CHR ''t'']
      else [backslash, CHR ''u'', CHR ''0'', CHR ''0'',
            hex ((of_char b :: nat) div 16), hex ((of_char b :: nat) mod 16)])"

text \<open>
  From \<open>0x80\<close> on the encoder decodes one UTF-8 sequence. \<open>utf8_len\<close> is the length of
  the well-formed sequence at the head of the bytes (as \<^verbatim>\<open>utf8.DecodeRuneInString\<close>
  accepts it), and \<open>0\<close> when there is none.
\<close>

definition cont :: "nat \<Rightarrow> bool" where
  "cont b = (128 \<le> b \<and> b \<le> 191)"

fun utf8_len :: "nat list \<Rightarrow> nat" where
  "utf8_len [] = 0"
| "utf8_len (b0 # bs) =
     (if 194 \<le> b0 \<and> b0 \<le> 223 then
        (case bs of b1 # _ \<Rightarrow> if cont b1 then 2 else 0 | _ \<Rightarrow> 0)
      else if 224 \<le> b0 \<and> b0 \<le> 239 then
        (case bs of
           b1 # b2 # _ \<Rightarrow>
             if (if b0 = 224 then 160 else 128) \<le> b1 \<and>
                b1 \<le> (if b0 = 237 then 159 else 191) \<and> cont b2
             then 3 else 0
         | _ \<Rightarrow> 0)
      else if 240 \<le> b0 \<and> b0 \<le> 244 then
        (case bs of
           b1 # b2 # b3 # _ \<Rightarrow>
             if (if b0 = 240 then 144 else 128) \<le> b1 \<and>
                b1 \<le> (if b0 = 244 then 143 else 191) \<and> cont b2 \<and> cont b3
             then 4 else 0
         | _ \<Rightarrow> 0)
      else 0)"

declare utf8_len.simps [simp del]

text \<open>
  An ill-formed byte is written as the escape of U+FFFD; the line and paragraph separators
  U+2028 and U+2029 (\<open>E2 80 A8\<close>, \<open>E2 80 A9\<close>) are always escaped; every other
  well-formed sequence is copied.
\<close>

function appendString_loop :: "bool \<Rightarrow> string \<Rightarrow> string" where
  "appendString_loop escapeHTML [] = []"
| "appendString_loop escapeHTML (b # rest) =
     (if (of_char b :: nat) < 128 then escape_byte escapeHTML b @ appendString_loop escapeHTML rest
      else if utf8_len (map of_char (b # rest)) = 0
      then backslash # ''ufffd'' @ appendString_loop escapeHTML rest
      else if take 3 (b # rest) = [CHR 0xE2, CHR 0x80, CHR 0xA8]
      then backslash # ''u2028'' @ appendString_loop escapeHTML (drop 2 rest)
      else if take 3 (b # rest) = [CHR 0xE2, CHR 0x80, CHR 0xA9]
      then backslash # ''u2029'' @ appendString_loop escapeHTML (drop 2 rest)
      else take (utf8_len (map of_char (b # rest))) (b # rest) @
           appendString_loop escapeHTML (drop (utf8_len (map of_char (b # rest)) - 1) rest))"
  by pat_completeness auto
termination
  by (relation "measure (\<lambda>(e, s). length s)") auto

definition appendString :: "bool \<Rightarrow> string \<Rightarrow> string" where
  "appendString escapeHTML s = dquote # appendString_loop escapeHTML s @ [dquote]"

text \<open>Decimal digits of an integer.\<close>

function show_nat :: "nat \<Rightarrow> string" where
  "show_nat n = (if n < 10 then [hex n] else show_nat (n div 10) @ [hex (n mod 10)])"
  by pat_completeness auto
termination
  by (relation "measure id") auto

declare show_nat.simps [simp del]

definition show_int :: "int \<Rightarrow> string" where
  "show_int i = (if i < 0 then CHR ''-'' # show_nat (nat (- i)) else show_nat (nat i))"

fun join :: "string \<Rightarrow> string list \<Rightarrow> string" where
  "join sep [] = []"
| "join sep [x] = x"
| "join sep (x # y # ys) = x @ sep @ join sep (y # ys)"

text \<open>
  The compact text of a value: members and elements separated by commas, no white space.
\<close>

fun render :: "bool \<Rightarrow> json \<Rightarrow> string" where
  "render escapeHTML JNull = ''null''"
| "render escapeHTML (JBool b) = (if b then ''true'' else ''false'')"
| "render escapeHTML (JNumber i) = show_int i"
| "render escapeHTML (JString s) = appendString escapeHTML s"
| "render escapeHTML (JArray xs) = ''['' @ join '','' (map (render escapeHTML) xs) @ '']''"
| "render escapeHTML (JObject kvs) =
     ''{'' @ join '','' (map (\<lambda>(k, v). appendString escapeHTML k @ '':'' @ render escapeHTML v) kvs)
     @ ''}''"
| "render escapeHTML JUnsupported = []"

fun encodable :: "json \<Rightarrow> bool" where
  "encodable (JArray xs) = list_all encodable xs"
| "encodable (JObject kvs) = list_all (\<lambda>(k, v). encodable v) kvs"
| "encodable JUnsupported = False"
| "encodable _ = True"

text \<open>
  \<^verbatim>\<open>json.NewEncoder\<close> starts with HTML escaping on; \<^verbatim>\<open>SetEscapeHTML\<close> sets it;
  \<^verbatim>\<open>Encode\<close> writes the text of the value and a line feed, or fails on a value it
  does not support.
\<close>

record Encoder =
  escapeHTML :: bool

definition NewEncoder :: Encoder where
  "NewEncoder = \<lparr>escapeHTML = True\<rparr>"

definition SetEscapeHTML :: "Encoder \<Rightarrow> bool \<Rightarrow> Encoder" where
  "SetEscapeHTML enc on = enc\<lparr>escapeHTML := on\<rparr>"

definition Encode :: "Encoder \<Rightarrow> json \<Rightarrow> fault + string" where
  "Encode enc v =
     (if encodable v then Inr (render (escapeHTML enc) v @ [CHR 0x0A])
      else Inl (Failure ''json: unsupported type''))"

subsection \<open>The request builder\<close>

text \<open>
  What \<^verbatim>\<open>newRequest\<close> calls outside \<^verbatim>\<open>keycloak.go\<close>:
  \<^item> \<open>URL_Parse\<close>: \<^verbatim>\<open>c.baseURL.Parse(path)\<close>, the path resolved against the base or
    an error;
  \<^item> \<open>query_Values\<close>: \<^verbatim>\<open>query.Values(body)\<close> followed by \<^verbatim>\<open>Encode()\<close>, the
    URL-encoded form of the body or an error;
  \<^item> \<open>NewRequest_err\<close>: the error of \<^verbatim>\<open>http.NewRequest\<close> for a method and a URL,
    \<open>None\<close> when it accepts them;
  \<^item> \<open>GetOIDCToken\<close>: the token service \<^verbatim>\<open>c.Authentication.GetOIDCToken\<close>, which
    reaches the client through its back-pointer and answers a grant request with a token
    or with an error (never with neither).
\<close>

record env =
  URL_Parse :: "url \<Rightarrow> string \<Rightarrow> fault + url"
  query_Values :: "json \<Rightarrow> fault + string"
  NewRequest_err :: "string \<Rightarrow> url \<Rightarrow> fault option"
  GetOIDCToken :: "Client \<Rightarrow> AccessGrantRequest \<Rightarrow> error + OIDCToken"

text \<open>
  \<^verbatim>\<open>http.NewRequest\<close>: an empty method means \<^verbatim>\<open>GET\<close>; the header map starts empty.
\<close>

definition http_NewRequest :: "env \<Rightarrow> string \<Rightarrow> url \<Rightarrow> string option \<Rightarrow> fault + Request" where
  "http_NewRequest e method u entity =
     (case NewRequest_err e method u of
        Some err \<Rightarrow> Inl err
      | None \<Rightarrow>
          Inr \<lparr>Method = (if method = [] then ''GET'' else method), URL = u, Entity = entity,
               Header = Map.empty, Ctx = None\<rparr>)"

text \<open>\<^verbatim>\<open>req.Header.Set(key, value)\<close> replaces the value of the key.\<close>

definition Header_Set :: "Request \<Rightarrow> string \<Rightarrow> string \<Rightarrow> Request" where
  "Header_Set req k v = req\<lparr>Header := (Header req)(k \<mapsto> v)\<rparr>"

text \<open>
  A call either returns or panics (a nil pointer is dereferenced).
\<close>

datatype 'a outcome = Panic | Returned 'a

text \<open>
  \<^verbatim>\<open>newRequest\<close> is written in the three parts its body has; the result is what the call
  returns, \<open>Inl\<close> for \<^verbatim>\<open>(nil, err)\<close> and \<open>Inr\<close> for \<^verbatim>\<open>(req, nil)\<close>.

  Lines 218 to 241, the request with its entity. In the two branches with a body,
  \<^verbatim>\<open>err\<close> is declared anew inside the branch (\<^verbatim>\<open>formEnc, err := ...\<close>,
  \<^verbatim>\<open>err := enc.Encode(body)\<close>), so the error of \<^verbatim>\<open>http.NewRequest\<close> is assigned to
  that inner variable: the check at line 239 reads the outer \<^verbatim>\<open>err\<close>, which is still
  nil, and the next statement that runs, the \<^verbatim>\<open>req.Header.Set\<close> of the content type at
  line 244 or 247, dereferences the nil request. Only the branch without a body assigns
  the outer \<^verbatim>\<open>err\<close>.
\<close>

definition newRequest_entity ::
  "env \<Rightarrow> string \<Rightarrow> url \<Rightarrow> json option \<Rightarrow> headers \<Rightarrow> (error + Request) outcome" where
  "newRequest_entity e method u body h =
     (case body of
        Some b \<Rightarrow>
          (case (if contentType h = formEncoded then query_Values e b
                 else Encode (SetEscapeHTML NewEncoder False) b) of
             Inl err \<Rightarrow> Returned (Inl (Fault err))
           | Inr payload \<Rightarrow>
               (case http_NewRequest e method u (Some payload) of
                  Inl err \<Rightarrow> Panic
                | Inr req \<Rightarrow> Returned (Inr req)))
      | None \<Rightarrow>
          (case http_NewRequest e method u None of
             Inl err \<Rightarrow> Returned (Inl (Fault err))
           | Inr req \<Rightarrow> Returned (Inr req)))"

text \<open>Lines 243 to 251, the content type and the caller's authorization.\<close>

definition newRequest_headers :: "Request \<Rightarrow> json option \<Rightarrow> headers \<Rightarrow> Request" where
  "newRequest_headers req0 body h =
     (let req1 = (if contentType h \<noteq> [] then Header_Set req0 ''Content-Type'' (contentType h)
                  else req0);
          req2 = (if body \<noteq> None \<and> contentType h = []
                  then Header_Set req1 ''Content-Type'' ''application/json'' else req1)
      in if authorization h \<noteq> [] then Header_Set req2 ''Authorization'' (authorization h)
         else req2)"

text \<open>
  Lines 253 to 283, the body of \<^verbatim>\<open>if isAdminRequest\<close>: the grant request is assembled
  and handed to the token service, and the token becomes the \<^verbatim>\<open>Authorization\<close> header.
  The second component is the list of the grant requests handed over.
\<close>

definition newRequest_admin ::
  "env \<Rightarrow> Client \<Rightarrow> Request \<Rightarrow> (error + Request) outcome \<times> AccessGrantRequest list" where
  "newRequest_admin e c req =
     (let adminGrant0 = emptyGrant;
          adminGrant1 = (if hasOfflineAccess c then adminGrant0\<lparr>Scope := offlineScope\<rparr>
                         else adminGrant0)
      in if isConfidential c \<and> isServiceAccount c then
           (let adminGrant = adminGrant1\<lparr>GrantType := clientGrant\<rparr>
            in case GetOIDCToken e c adminGrant of
                 Inl err \<Rightarrow> (Returned (Inl err), [adminGrant])
               | Inr token \<Rightarrow>
                   (Returned (Inr (Header_Set req ''Authorization'' (''Bearer '' @ AccessToken token))),
                    [adminGrant]))
         else
           (let adminGrant = adminGrant1\<lparr>GrantType := passwordGrant,
                                          Username := adminAccount c,
                                          Password := adminPass c\<rparr>
            in case GetOIDCToken e c adminGrant of
                 Inl err \<Rightarrow> (Returned (Inl err), [adminGrant])
               | Inr token \<Rightarrow>
                   (Returned (Inr (Header_Set req ''Authorization'' (''Bearer '' @ AccessToken token))),
                    [adminGrant])))"

text \<open>The whole of \<^verbatim>\<open>newRequest\<close>, lines 206 to 287.\<close>

definition newRequest ::
  "env \<Rightarrow> Client \<Rightarrow> string \<Rightarrow> string \<Rightarrow> json option \<Rightarrow> headers \<Rightarrow> bool
   \<Rightarrow> (error + Request) outcome \<times> AccessGrantRequest list" where
  "newRequest e c method path body h isAdminRequest =
     (case URL_Parse e (baseURL c) path of
        Inl err \<Rightarrow> (Returned (Inl (Fault err)), [])
      | Inr u \<Rightarrow>
          (case newRequest_entity e method u body h of
             Panic \<Rightarrow> (Panic, [])
           | Returned (Inl err) \<Rightarrow> (Returned (Inl err), [])
           | Returned (Inr req0) \<Rightarrow>
               (let req = newRequest_headers req0 body h
                in if isAdminRequest then newRequest_admin e c req
                   else (Returned (Inr req), []))))"

subsection \<open>Library model: readers, writers and the JSON decoder\<close>

text \<open>
  \<^verbatim>\<open>ioutil.ReadAll\<close> and \<^verbatim>\<open>io.Copy\<close> read to the end of file and do not report it:
  the error they pass on is the one that ended the stream unless that was \<^verbatim>\<open>io.EOF\<close>.
\<close>

definition read_error :: "ReadCloser \<Rightarrow> fault option" where
  "read_error b = (if readErr b = Some EOF then None else readErr b)"

text \<open>
  \<^verbatim>\<open>ioutil.ReadAll\<close> returns the bytes read and the error that stopped it, nil at the
  end of file; the slice it returns is never nil.
\<close>

definition ioutil_ReadAll :: "ReadCloser \<Rightarrow> string option \<times> fault option" where
  "ioutil_ReadAll b = (Some (content b), read_error b)"

text \<open>
  An \<^verbatim>\<open>io.Writer\<close>: the bytes it has accepted, and the error of its \<^verbatim>\<open>Write\<close> when
  it refuses. \<^verbatim>\<open>io.Copy\<close> writes what it reads; it returns the first write error, or
  else the error that ended the reading unless that was the end of file.
\<close>

record Writer =
  written :: string
  writeErr :: "fault option"

definition io_Copy :: "Writer \<Rightarrow> ReadCloser \<Rightarrow> Writer \<times> fault option" where
  "io_Copy w b =
     (if content b \<noteq> [] then
        (case writeErr w of
           Some err \<Rightarrow> (w, Some err)
         | None \<Rightarrow> (w\<lparr>written := written w @ content b\<rparr>, read_error b))
      else (w, read_error b))"

text \<open>
  The networking and decoding that \<^verbatim>\<open>do\<close> calls:
  \<^item> \<open>httpClient_Do\<close>: the transport, \<^verbatim>\<open>c.httpClient.Do(req)\<close>, with its pair of results;
  \<^item> \<open>json_parse\<close>: the syntax of JSON, the value of a text or \<open>None\<close> for a text that
    is not one JSON value;
  \<^item> \<open>fold_eq\<close>: equality of two member names up to case, as the decoder folds them;
  \<^item> \<open>decode_http_Response\<close>: the decoder's assignment of the members of a JSON object
    to the fields of an \<^verbatim>\<open>*http.Response\<close>;
  \<^item> \<open>decode_value\<close>: \<^verbatim>\<open>Decoder.Decode\<close> into the caller's target, for a body that
    holds more than white space: the target afterwards and the error.
\<close>

record 'v exec_env =
  httpClient_Do :: "Request \<Rightarrow> http_Response option \<times> fault option"
  json_parse :: "string \<Rightarrow> json option"
  fold_eq :: "string \<Rightarrow> string \<Rightarrow> bool"
  decode_http_Response :: "(string \<times> json) list \<Rightarrow> http_Response option \<Rightarrow> http_Response option"
  decode_value :: "ReadCloser \<Rightarrow> 'v \<Rightarrow> 'v \<times> fault option"

text \<open>White space in JSON is space, tab, carriage return and line feed.\<close>

definition isSpace :: "char \<Rightarrow> bool" where
  "isSpace c = (c = CHR '' '' \<or> c = CHR 0x09 \<or> c = CHR 0x0D \<or> c = CHR 0x0A)"

text \<open>
  \<^verbatim>\<open>json.Unmarshal(data, errorResponse)\<close>. The decoder first checks the syntax of the
  whole text and changes nothing when it is invalid; a text of white space only, the empty
  text included, is invalid. Of a valid text only an object assigns anything. Each member,
  in order, goes to the field of \<^verbatim>\<open>ErrorResponse\<close> whose JSON name equals the member's
  name, or else to the one whose JSON name equals it up to case. \<^verbatim>\<open>Message\<close> is named
  \<^verbatim>\<open>error_description\<close> by its tag; \<^verbatim>\<open>Response\<close> is exported and has no tag, so its
  JSON name is \<^verbatim>\<open>Response\<close>. A string sets \<^verbatim>\<open>Message\<close>; \<^verbatim>\<open>null\<close> sets the pointer
  \<^verbatim>\<open>Response\<close> to nil, and an object is decoded into what it points to; a value of any
  other kind is a type error and leaves the field as it is. The error that
  \<^verbatim>\<open>Unmarshal\<close> returns is not part of the result: \<^verbatim>\<open>do\<close> discards it.
\<close>

datatype field = Response_field | Message_field

definition find_field :: "'v exec_env \<Rightarrow> string \<Rightarrow> field option" where
  "find_field e k =
     (if k = ''Response'' then Some Response_field
      else if k = ''error_description'' then Some Message_field
      else if fold_eq e k ''Response'' then Some Response_field
      else if fold_eq e k ''error_description'' then Some Message_field
      else None)"

fun assign_member :: "'v exec_env \<Rightarrow> ErrorResponse \<Rightarrow> string \<times> json \<Rightarrow> ErrorResponse" where
  "assign_member e er (k, v) =
     (case find_field e k of
        Some Response_field \<Rightarrow>
          (case v of
             JNull \<Rightarrow> er\<lparr>err_Response := None\<rparr>
           | JObject ms \<Rightarrow> er\<lparr>err_Response := decode_http_Response e ms (err_Response er)\<rparr>
           | _ \<Rightarrow> er)
      | Some Message_field \<Rightarrow>
          (case v of JString s \<Rightarrow> er\<lparr>Message := s\<rparr> | _ \<Rightarrow> er)
      | None \<Rightarrow> er)"

definition json_Unmarshal :: "'v exec_env \<Rightarrow> string \<Rightarrow> ErrorResponse \<Rightarrow> ErrorResponse" where
  "json_Unmarshal e data er =
     (if list_all isSpace data then er
      else case json_parse e data of
             Some (JObject ms) \<Rightarrow> foldl (assign_member e) er ms
           | _ \<Rightarrow> er)"

text \<open>An object has no member that goes to a given field.\<close>

definition no_member :: "'v exec_env \<Rightarrow> field \<Rightarrow> (string \<times> json) list \<Rightarrow> bool" where
  "no_member e f ms = list_all (\<lambda>(k, v). find_field e k \<noteq> Some f) ms"

text \<open>
  \<^verbatim>\<open>json.NewDecoder(body).Decode(v)\<close>. A body that ends before any byte other than
  white space yields \<^verbatim>\<open>io.EOF\<close>, or the read error that ended it, and the target is
  not touched.
\<close>

definition json_Decode :: "'v exec_env \<Rightarrow> ReadCloser \<Rightarrow> 'v \<Rightarrow> 'v \<times> fault option" where
  "json_Decode e b v =
     (if list_all isSpace (content b)
      then (v, Some (case readErr b of None \<Rightarrow> EOF | Some err \<Rightarrow> err))
      else decode_value e b v)"

subsection \<open>The executor\<close>

text \<open>
  The target \<^verbatim>\<open>v interface{}\<close>: nil, a value that is an \<^verbatim>\<open>io.Writer\<close>, or any other
  value, to be decoded into.
\<close>

datatype 'v target = NilTarget | WriterTarget Writer | DecodeTarget 'v

definition WithContext :: "Request \<Rightarrow> Context \<Rightarrow> Request" where
  "WithContext req ctx = req\<lparr>Ctx := Some ctx\<rparr>"

text \<open>
  \<^verbatim>\<open>do\<close>. A return is the triple of the response wrapper (\<open>None\<close> for nil), the error
  (\<open>None\<close> for nil) and the target as the call leaves it.

  After a transport error the \<^verbatim>\<open>select\<close> returns only when the context is done; its
  \<^verbatim>\<open>default\<close> case is empty, so otherwise control goes on to
  \<^verbatim>\<open>defer resp.Body.Close()\<close>, which reads \<^verbatim>\<open>resp.Body\<close> and panics on a nil response.
  With a response, \<^verbatim>\<open>err\<close> keeps the transport error and is what the last line returns.
\<close>

definition do ::
  "'v exec_env \<Rightarrow> Context \<Rightarrow> Request \<Rightarrow> 'v target
   \<Rightarrow> (Response option \<times> error option \<times> 'v target) outcome" where
  "do e ctx req v =
     (case httpClient_Do e (WithContext req ctx) of
        (resp, err) \<Rightarrow>
          if err \<noteq> None \<and> Err ctx \<noteq> None then Returned (None, map_option Fault (Err ctx), v)
          else
            (case resp of
               None \<Rightarrow> Panic
             | Some r \<Rightarrow>
                 (let response = \<lparr>Response = r\<rparr>
                  in if StatusCode r \<ge> 300 then
                       (let errorResponse = \<lparr>err_Response = Some r, Message = []\<rparr>
                        in case ioutil_ReadAll (Body r) of
                             (Some data, None) \<Rightarrow>
                               Returned (None, Some (UpstreamError (json_Unmarshal e data errorResponse)), v)
                           | _ \<Rightarrow> Returned (None, Some (UpstreamError errorResponse), v))
                     else
                       (case v of
                          NilTarget \<Rightarrow> Returned (Some response, map_option Fault err, v)
                        | WriterTarget w \<Rightarrow>
                            (case io_Copy w (Body r) of
                               (w', copyErr) \<Rightarrow>
                                 Returned (Some response, map_option Fault err, WriterTarget w'))
                        | DecodeTarget x \<Rightarrow>
                            (case json_Decode e (Body r) x of
                               (x', decErr0) \<Rightarrow>
                                 (let decErr = (if decErr0 = Some EOF then None else decErr0)
                                  in Returned (Some response,
                                               map_option Fault (if decErr \<noteq> None then decErr else err),
                                               DecodeTarget x')))))))"

text \<open>
  \<^verbatim>\<open>ErrorResponse.Error\<close>, lines 38 to 42: the text
  \<^verbatim>\<open>fmt.Sprintf("%v %v: %d %v", ...)\<close> of the method and the URL of the request of the
  response, the status code and the message. The arguments read through the pointers
  \<^verbatim>\<open>r.Response\<close> and \<^verbatim>\<open>r.Response.Request\<close>, and a nil pointer there is a panic.
  The request of a response is not among the fields of the model of \<^verbatim>\<open>http.Response\<close>,
  so it is the parameter \<open>request_of\<close>: the method and the text of the URL, or \<open>None\<close>
  for a nil request.
\<close>

definition Error :: "(http_Response \<Rightarrow> (string \<times> string) option) \<Rightarrow> ErrorResponse \<Rightarrow> string outcome" where
  "Error request_of r =
     (case err_Response r of
        None \<Rightarrow> Panic
      | Some resp \<Rightarrow>
          (case request_of resp of
             None \<Rightarrow> Panic
           | Some (m, u) \<Rightarrow>
               Returned (m @ '' '' @ u @ '': '' @ show_int (StatusCode resp) @ '' '' @ Message r)))"

subsection \<open>Test doubles\<close>

text \<open>
  Concrete clients and environments on which the theorems below are run. The test
  environment of the builder resolves a path by appending it to the base, accepts every
  method and URL, and has a token service that gives the same answer to every grant
  request.
\<close>

definition test_env :: "error + OIDCToken \<Rightarrow> env" where
  "test_env answer =
     \<lparr>URL_Parse = (\<lambda>base path. Inr (base @ path)),
      query_Values = (\<lambda>b. Inr ''grant_type=password''),
      NewRequest_err = (\<lambda>method u. None),
      GetOIDCToken = (\<lambda>c grant. answer)\<rparr>"

definition serviceAccount :: Client where
  "serviceAccount =
     \<lparr>baseURL = ''https://sso.example/auth/'', realm = ''demo'',
      hasOfflineAccess = True, isServiceAccount = True, isConfidential = True,
      clientID = ''svc'', clientSecret = ''s3cret'', adminAccount = [], adminPass = [],
      adminOIDC = \<lparr>AccessToken = []\<rparr>\<rparr>"

definition publicAdmin :: Client where
  "publicAdmin =
     \<lparr>baseURL = ''https://sso.example/auth/'', realm = ''demo'',
      hasOfflineAccess = False, isServiceAccount = False, isConfidential = False,
      clientID = ''cli'', clientSecret = [], adminAccount = ''root'', adminPass = ''hunter2'',
      adminOIDC = \<lparr>AccessToken = ''stale''\<rparr>\<rparr>"

definition confidentialAdmin :: Client where
  "confidentialAdmin =
     \<lparr>baseURL = ''https://sso.example/auth/'', realm = ''staff'',
      hasOfflineAccess = True, isServiceAccount = False, isConfidential = True,
      clientID = ''console'', clientSecret = ''s3cret'', adminAccount = ''ops'', adminPass = ''pa55'',
      adminOIDC = \<lparr>AccessToken = []\<rparr>\<rparr>"

definition noHint :: headers where
  "noHint = \<lparr>authorization = [], contentType = []\<rparr>"

definition basicHint :: headers where
  "basicHint = \<lparr>authorization = ''Basic dXNlcg=='', contentType = []\<rparr>"

definition freshToken :: OIDCToken where
  "freshToken = \<lparr>AccessToken = ''abc.def''\<rparr>"

text \<open>
  The test double of the executor's environment: the transport gives one fixed answer;
  the JSON syntax is known for the documents listed, each being the text the encoder
  writes for it, and every other text is invalid; names are folded by nothing; an object
  decoded into an \<^verbatim>\<open>*http.Response\<close> changes nothing in it; the caller's target is a
  JSON value, replaced by the value of the body.
\<close>

definition documents :: "json list" where
  "documents =
     [JObject [(''error_description'', JString ''bad request'')],
      JObject [(''Response'', JNull)],
      JObject [(''id'', JNumber 7)]]"

definition test_parse :: "string \<Rightarrow> json option" where
  "test_parse s = find (\<lambda>j. render False j = s) documents"

definition test_exec :: "http_Response option \<times> fault option \<Rightarrow> json exec_env" where
  "test_exec answer =
     \<lparr>httpClient_Do = (\<lambda>req. answer),
      json_parse = test_parse,
      fold_eq = (\<lambda>a b. False),
      decode_http_Response = (\<lambda>ms r. r),
      decode_value = (\<lambda>b v. case test_parse (content b) of
                                 Some j \<Rightarrow> (j, None)
                               | None \<Rightarrow> (v, Some (Failure ''invalid character'')))\<rparr>"

definition background :: Context where
  "background = \<lparr>Err = None\<rparr>"

definition cancelled :: Context where
  "cancelled = \<lparr>Err = Some Canceled\<rparr>"

definition getUsers :: Request where
  "getUsers =
     \<lparr>Method = ''GET'', URL = ''https://sso.example/auth/admin/realms/demo/users'',
      Entity = None, Header = Map.empty, Ctx = None\<rparr>"

text \<open>Every response of the test transport belongs to the request \<open>getUsers\<close>.\<close>

definition requestOf :: "http_Response \<Rightarrow> (string \<times> string) option" where
  "requestOf r = Some (Method getUsers, URL getUsers)"

definition respond :: "int \<Rightarrow> string \<Rightarrow> http_Response" where
  "respond code text = \<lparr>StatusCode = code, Body = \<lparr>content = text, readErr = None\<rparr>\<rparr>"

text \<open>Two error bodies, as a server may send them.\<close>

definition errorBody :: string where
  \<open>errorBody = ''{"error_description":"bad request"}''\<close>

definition nullResponseBody :: string where
  \<open>nullResponseBody = ''{"Response":null}''\<close>

subsection \<open>What a JSON value says\<close>

text \<open>
  The bytes of all the strings of a value, member names and string values, in the order
  in which the encoder meets them; and the three characters that HTML escaping is about.
\<close>

fun json_strings :: "json \<Rightarrow> string" where
  "json_strings (JString s) = s"
| "json_strings (JArray xs) = concat (map json_strings xs)"
| "json_strings (JObject kvs) = concat (map (\<lambda>(k, v). k @ json_strings v) kvs)"
| "json_strings _ = []"

definition html_special :: "char \<Rightarrow> bool" where
  "html_special ch = (ch = CHR ''<'' \<or> ch = CHR ''>'' \<or> ch = CHR ''&'')"

section \<open>Properties of the request builder\<close>

lemma Header_Set_same: "Header (Header_Set req k v) k = Some v"
  by (simp add: Header_Set_def)

text \<open>The grant request that the admin part hands to the token service.\<close>

lemma newRequest_admin_grants:
  "snd (newRequest_admin e c req) =
     [if isConfidential c \<and> isServiceAccount c
      then \<lparr>GrantType = clientGrant,
            Scope = (if hasOfflineAccess c then offlineScope else []),
            Username = [], Password = []\<rparr>
      else \<lparr>GrantType = passwordGrant,
            Scope = (if hasOfflineAccess c then offlineScope else []),
            Username = adminAccount c, Password = adminPass c\<rparr>]"
  by (simp add: newRequest_admin_def Let_def emptyGrant_def split: sum.split)

lemma newRequest_admin_result:
  "fst (newRequest_admin e c req) =
     (case GetOIDCToken e c (hd (snd (newRequest_admin e c req))) of
        Inl err \<Rightarrow> Returned (Inl err)
      | Inr token \<Rightarrow>
          Returned (Inr (Header_Set req ''Authorization'' (''Bearer '' @ AccessToken token))))"
  by (simp add: newRequest_admin_def Let_def emptyGrant_def split: sum.split)

text \<open>
  A call hands over no grant request at all, or it is admin-flagged, got as far as line 252
  with a request, and is the admin part run on that request.
\<close>

lemma newRequest_grants_cases:
  "snd (newRequest e c method path body h adm) = [] \<or>
   (\<exists>u req0. adm \<and> URL_Parse e (baseURL c) path = Inr u \<and>
      newRequest_entity e method u body h = Returned (Inr req0) \<and>
      newRequest e c method path body h adm = newRequest_admin e c (newRequest_headers req0 body h))"
  by (simp add: newRequest_def Let_def split: sum.split outcome.split)

lemma newRequest_reaches_admin:
  assumes "URL_Parse e (baseURL c) path = Inr u"
    and "newRequest_entity e method u body h = Returned (Inr req0)"
  shows "newRequest e c method path body h True = newRequest_admin e c (newRequest_headers req0 body h)"
  using assms by (simp add: newRequest_def)

lemma newRequest_admin_run:
  assumes "URL_Parse e (baseURL c) path = Inr u"
    and "newRequest_entity e method u body h = Returned (Inr req0)"
  shows "\<exists>g. snd (newRequest e c method path body h True) = [g] \<and>
           fst (newRequest e c method path body h True) =
             (case GetOIDCToken e c g of
                Inl err \<Rightarrow> Returned (Inl err)
              | Inr token \<Rightarrow>
                  Returned (Inr (Header_Set (newRequest_headers req0 body h) ''Authorization''
                                   (''Bearer '' @ AccessToken token))))"
proof -
  let ?req = "newRequest_headers req0 body h"
  have run: "newRequest e c method path body h True = newRequest_admin e c ?req"
    by (rule newRequest_reaches_admin [OF assms])
  obtain g where g: "snd (newRequest_admin e c ?req) = [g]"
    using newRequest_admin_grants [of e c ?req] by simp
  show ?thesis
    unfolding run using newRequest_admin_result [of e c ?req] g by simp
qed

lemma newRequest_returned_request:
  assumes "fst (newRequest e c method path body h adm) = Returned (Inr req)"
  shows "\<exists>u req0. URL_Parse e (baseURL c) path = Inr u \<and>
           newRequest_entity e method u body h = Returned (Inr req0)"
  using assms
  by (simp add: newRequest_def split: sum.splits outcome.splits)


text \<open>
  The grant request that an admin-flagged call hands over once the path has resolved and
  the request with its entity is built: there is exactly one, and all its four fields
  are fixed by the configuration.
\<close>

lemma newRequest_grant_sent:
  assumes "URL_Parse e (baseURL c) path = Inr u"
    and "newRequest_entity e method u body h = Returned (Inr req0)"
  shows "snd (newRequest e c method path body h True) =
           [if isConfidential c \<and> isServiceAccount c
            then \<lparr>GrantType = clientGrant,
                  Scope = (if hasOfflineAccess c then offlineScope else []),
                  Username = [], Password = []\<rparr>
            else \<lparr>GrantType = passwordGrant,
                  Scope = (if hasOfflineAccess c then offlineScope else []),
                  Username = adminAccount c, Password = adminPass c\<rparr>]"
  unfolding newRequest_reaches_admin [OF assms] by (rule newRequest_admin_grants)

text \<open>The test environment resolves every path and builds every request without a body.\<close>

lemma test_env_resolves:
  "URL_Parse (test_env answer) (baseURL c) path = Inr (baseURL c @ path)"
  by (simp add: test_env_def)

lemma test_env_builds:
  "newRequest_entity (test_env answer) ''GET'' u None h
     = Returned (Inr \<lparr>Method = ''GET'', URL = u, Entity = None, Header = Map.empty, Ctx = None\<rparr>)"
  by (simp add: newRequest_entity_def http_NewRequest_def test_env_def)

lemma test_env_builds_json:
  "newRequest_entity (test_env answer) ''POST'' u (Some (JObject [(''enabled'', JBool True)])) noHint
     = Returned (Inr \<lparr>Method = ''POST'', URL = u,
                       Entity = Some (render False (JObject [(''enabled'', JBool True)]) @ [CHR 0x0A]),
                       Header = Map.empty, Ctx = None\<rparr>)"
  by (simp add: newRequest_entity_def http_NewRequest_def test_env_def noHint_def formEncoded_def
      Encode_def SetEscapeHTML_def NewEncoder_def)

text \<open>
  C3. An admin-flagged call that gets past the construction of the request hands exactly
  one grant request to the token service, and the configuration alone fixes its grant
  type: with \<open>isConfidential\<close> and \<open>isServiceAccount\<close> both set it is
  \<^verbatim>\<open>client_credentials\<close> and the user name and password stay empty; in every other mode it
  is \<^verbatim>\<open>password\<close>, with the configured admin account and admin password.
\<close>

theorem grant_type_by_mode:
  assumes "URL_Parse e (baseURL c) path = Inr u"
    and "newRequest_entity e method u body h = Returned (Inr req0)"
  shows "\<exists>g. snd (newRequest e c method path body h True) = [g] \<and>
           (if isConfidential c \<and> isServiceAccount c
            then GrantType g = clientGrant \<and> Username g = [] \<and> Password g = []
            else GrantType g = passwordGrant \<and> Username g = adminAccount c \<and>
                 Password g = adminPass c)"
  unfolding newRequest_grant_sent [OF assms] by simp

lemmas builder_run =
  newRequest_def newRequest_entity_def newRequest_headers_def newRequest_admin_def
  http_NewRequest_def Header_Set_def test_env_def serviceAccount_def publicAdmin_def
  basicHint_def freshToken_def emptyGrant_def Let_def

theorem grant_type_by_mode_witness:
  "URL_Parse (test_env (Inr freshToken)) (baseURL serviceAccount) ''admin/realms/demo/users''
     = Inr (baseURL serviceAccount @ ''admin/realms/demo/users'') \<and>
   newRequest_entity (test_env (Inr freshToken)) ''GET''
       (baseURL serviceAccount @ ''admin/realms/demo/users'') None noHint
     = Returned (Inr \<lparr>Method = ''GET'', URL = baseURL serviceAccount @ ''admin/realms/demo/users'',
                       Entity = None, Header = Map.empty, Ctx = None\<rparr>) \<and>
   isConfidential serviceAccount \<and> isServiceAccount serviceAccount \<and>
   snd (newRequest (test_env (Inr freshToken)) serviceAccount ''GET'' ''admin/realms/demo/users''
          None noHint True)
     = [\<lparr>GrantType = ''client_credentials'', Scope = ''offline_access'',
         Username = [], Password = []\<rparr>] \<and>
   URL_Parse (test_env (Inr freshToken)) (baseURL confidentialAdmin) ''admin/realms/staff/users/7''
     = Inr (baseURL confidentialAdmin @ ''admin/realms/staff/users/7'') \<and>
   newRequest_entity (test_env (Inr freshToken)) ''POST''
       (baseURL confidentialAdmin @ ''admin/realms/staff/users/7'')
       (Some (JObject [(''enabled'', JBool True)])) noHint
     = Returned (Inr \<lparr>Method = ''POST'',
                       URL = baseURL confidentialAdmin @ ''admin/realms/staff/users/7'',
                       Entity = Some (render False (JObject [(''enabled'', JBool True)]) @ [CHR 0x0A]),
                       Header = Map.empty, Ctx = None\<rparr>) \<and>
   isConfidential confidentialAdmin \<and> \<not> isServiceAccount confidentialAdmin \<and>
   snd (newRequest (test_env (Inr freshToken)) confidentialAdmin ''POST'' ''admin/realms/staff/users/7''
          (Some (JObject [(''enabled'', JBool True)])) noHint True)
     = [\<lparr>GrantType = ''password'', Scope = ''offline_access'',
         Username = ''ops'', Password = ''pa55''\<rparr>] \<and>
   URL_Parse (test_env (Inr freshToken)) (baseURL publicAdmin) ''admin/realms/demo/users''
     = Inr (baseURL publicAdmin @ ''admin/realms/demo/users'') \<and>
   newRequest_entity (test_env (Inr freshToken)) ''GET''
       (baseURL publicAdmin @ ''admin/realms/demo/users'') None basicHint
     = Returned (Inr \<lparr>Method = ''GET'', URL = baseURL publicAdmin @ ''admin/realms/demo/users'',
                       Entity = None, Header = Map.empty, Ctx = None\<rparr>) \<and>
   \<not> isConfidential publicAdmin \<and> \<not> isServiceAccount publicAdmin \<and>
   snd (newRequest (test_env (Inr freshToken)) publicAdmin ''GET'' ''admin/realms/demo/users''
          None basicHint True)
     = [\<lparr>GrantType = ''password'', Scope = [], Username = ''root'', Password = ''hunter2''\<rparr>]"
proof -
  note s = grant_type_by_mode
    [OF test_env_resolves [of "Inr freshToken" serviceAccount "''admin/realms/demo/users''"]
        test_env_builds [of "Inr freshToken" _ noHint]]
  note k = grant_type_by_mode
    [OF test_env_resolves [of "Inr freshToken" confidentialAdmin "''admin/realms/staff/users/7''"]
        test_env_builds_json [of "Inr freshToken"]]
  note p = grant_type_by_mode
    [OF test_env_resolves [of "Inr freshToken" publicAdmin "''admin/realms/demo/users''"]
        test_env_builds [of "Inr freshToken" _ basicHint]]
  have modes: "isConfidential serviceAccount \<and> isServiceAccount serviceAccount"
    "isConfidential confidentialAdmin \<and> \<not> isServiceAccount confidentialAdmin"
    "\<not> isConfidential publicAdmin \<and> \<not> isServiceAccount publicAdmin"
    by (simp_all add: serviceAccount_def confidentialAdmin_def publicAdmin_def)
  have runs:
    "snd (newRequest (test_env (Inr freshToken)) serviceAccount ''GET'' ''admin/realms/demo/users''
          None noHint True)
     = [\<lparr>GrantType = ''client_credentials'', Scope = ''offline_access'',
         Username = [], Password = []\<rparr>]"
    "snd (newRequest (test_env (Inr freshToken)) confidentialAdmin ''POST'' ''admin/realms/staff/users/7''
          (Some (JObject [(''enabled'', JBool True)])) noHint True)
     = [\<lparr>GrantType = ''password'', Scope = ''offline_access'',
         Username = ''ops'', Password = ''pa55''\<rparr>]"
    "snd (newRequest (test_env (Inr freshToken)) publicAdmin ''GET'' ''admin/realms/demo/users''
          None basicHint True)
     = [\<lparr>GrantType = ''password'', Scope = [], Username = ''root'', Password = ''hunter2''\<rparr>]"
    by (simp_all add: builder_run confidentialAdmin_def noHint_def formEncoded_def
        Encode_def SetEscapeHTML_def NewEncoder_def
        clientGrant_def passwordGrant_def offlineScope_def)
  from s k p modes runs show ?thesis
    by (simp add: test_env_resolves test_env_builds test_env_builds_json)
qed

text \<open>
  C9. Whatever the grant type, the one grant request that an admin-flagged call hands to
  the token service carries the scope \<^verbatim>\<open>offline_access\<close> exactly when \<open>hasOfflineAccess\<close>
  is set; otherwise its scope is empty, the zero value of the field.
\<close>

theorem grant_scope_offline:
  assumes "URL_Parse e (baseURL c) path = Inr u"
    and "newRequest_entity e method u body h = Returned (Inr req0)"
  shows "\<exists>g. snd (newRequest e c method path body h True) = [g] \<and>
           Scope g = (if hasOfflineAccess c then offlineScope else []) \<and>
           (Scope g = offlineScope) = hasOfflineAccess c"
  unfolding newRequest_grant_sent [OF assms] by (simp add: offlineScope_def)

theorem grant_scope_offline_witness:
  "URL_Parse (test_env (Inr freshToken)) (baseURL serviceAccount) ''admin/realms/demo/roles''
     = Inr (baseURL serviceAccount @ ''admin/realms/demo/roles'') \<and>
   newRequest_entity (test_env (Inr freshToken)) ''GET''
       (baseURL serviceAccount @ ''admin/realms/demo/roles'') None noHint
     = Returned (Inr \<lparr>Method = ''GET'', URL = baseURL serviceAccount @ ''admin/realms/demo/roles'',
                       Entity = None, Header = Map.empty, Ctx = None\<rparr>) \<and>
   hasOfflineAccess serviceAccount \<and>
   map (\<lambda>g. (GrantType g, Scope g))
     (snd (newRequest (test_env (Inr freshToken)) serviceAccount ''GET'' ''admin/realms/demo/roles''
             None noHint True))
     = [(''client_credentials'', ''offline_access'')] \<and>
   \<not> hasOfflineAccess (serviceAccount\<lparr>hasOfflineAccess := False\<rparr>) \<and>
   map (\<lambda>g. (GrantType g, Scope g))
     (snd (newRequest (test_env (Inr freshToken)) (serviceAccount\<lparr>hasOfflineAccess := False\<rparr>)
             ''GET'' ''admin/realms/demo/roles'' None noHint True))
     = [(''client_credentials'', [])] \<and>
   newRequest_entity (test_env (Inr freshToken)) ''POST''
       (baseURL confidentialAdmin @ ''admin/realms/staff/groups'')
       (Some (JObject [(''enabled'', JBool True)])) noHint
     = Returned (Inr \<lparr>Method = ''POST'',
                       URL = baseURL confidentialAdmin @ ''admin/realms/staff/groups'',
                       Entity = Some (render False (JObject [(''enabled'', JBool True)]) @ [CHR 0x0A]),
                       Header = Map.empty, Ctx = None\<rparr>) \<and>
   hasOfflineAccess confidentialAdmin \<and>
   map (\<lambda>g. (GrantType g, Scope g))
     (snd (newRequest (test_env (Inr freshToken)) confidentialAdmin ''POST'' ''admin/realms/staff/groups''
             (Some (JObject [(''enabled'', JBool True)])) noHint True))
     = [(''password'', ''offline_access'')] \<and>
   \<not> hasOfflineAccess publicAdmin \<and>
   map (\<lambda>g. (GrantType g, Scope g))
     (snd (newRequest (test_env (Inr freshToken)) publicAdmin ''GET'' ''admin/realms/demo/roles''
             None basicHint True))
     = [(''password'', [])]"
proof -
  note s = grant_scope_offline
    [OF test_env_resolves [of "Inr freshToken" serviceAccount "''admin/realms/demo/roles''"]
        test_env_builds [of "Inr freshToken" _ noHint]]
  note t = grant_scope_offline
    [OF test_env_resolves [of "Inr freshToken" "serviceAccount\<lparr>hasOfflineAccess := False\<rparr>"
          "''admin/realms/demo/roles''"]
        test_env_builds [of "Inr freshToken" _ noHint]]
  note k = grant_scope_offline
    [OF test_env_resolves [of "Inr freshToken" confidentialAdmin "''admin/realms/staff/groups''"]
        test_env_builds_json [of "Inr freshToken"]]
  note p = grant_scope_offline
    [OF test_env_resolves [of "Inr freshToken" publicAdmin "''admin/realms/demo/roles''"]
        test_env_builds [of "Inr freshToken" _ basicHint]]
  have flags: "hasOfflineAccess serviceAccount" "hasOfflineAccess confidentialAdmin"
    "\<not> hasOfflineAccess publicAdmin"
    by (simp_all add: serviceAccount_def confidentialAdmin_def publicAdmin_def)
  have runs:
    "map (\<lambda>g. (GrantType g, Scope g))
       (snd (newRequest (test_env (Inr freshToken)) serviceAccount ''GET'' ''admin/realms/demo/roles''
             None noHint True))
     = [(''client_credentials'', ''offline_access'')]"
    "map (\<lambda>g. (GrantType g, Scope g))
       (snd (newRequest (test_env (Inr freshToken)) (serviceAccount\<lparr>hasOfflineAccess := False\<rparr>)
             ''GET'' ''admin/realms/demo/roles'' None noHint True))
     = [(''client_credentials'', [])]"
    "map (\<lambda>g. (GrantType g, Scope g))
       (snd (newRequest (test_env (Inr freshToken)) confidentialAdmin ''POST'' ''admin/realms/staff/groups''
             (Some (JObject [(''enabled'', JBool True)])) noHint True))
     = [(''password'', ''offline_access'')]"
    "map (\<lambda>g. (GrantType g, Scope g))
       (snd (newRequest (test_env (Inr freshToken)) publicAdmin ''GET'' ''admin/realms/demo/roles''
             None basicHint True))
     = [(''password'', [])]"
    by (simp_all add: builder_run confidentialAdmin_def noHint_def formEncoded_def
        Encode_def SetEscapeHTML_def NewEncoder_def
        clientGrant_def passwordGrant_def offlineScope_def)
  from s t k p flags runs show ?thesis
    by (simp add: test_env_resolves test_env_builds test_env_builds_json)
qed

text \<open>
  C4. An admin-flagged call that gets past the construction of the request (the path
  resolves, the entity is built) asks the token service once. When the service answers
  with a token, the call returns the request with the header \<^verbatim>\<open>Authorization\<close> equal to
  \<^verbatim>\<open>Bearer\<close>, a space and the access token, whatever authorization the header hints
  carried; when the service answers with an error, the call returns that error and no
  request.
\<close>

theorem admin_bearer_token:
  assumes "URL_Parse e (baseURL c) path = Inr u"
    and "newRequest_entity e method u body h = Returned (Inr req0)"
  shows "\<exists>g. snd (newRequest e c method path body h True) = [g] \<and>
           (case GetOIDCToken e c g of
              Inl err \<Rightarrow> fst (newRequest e c method path body h True) = Returned (Inl err)
            | Inr token \<Rightarrow>
                (\<exists>req. fst (newRequest e c method path body h True) = Returned (Inr req) \<and>
                   Header req ''Authorization'' = Some (''Bearer '' @ AccessToken token)))"
proof -
  from newRequest_admin_run [OF assms] obtain g
    where g: "snd (newRequest e c method path body h True) = [g]"
      and r: "fst (newRequest e c method path body h True) =
             (case GetOIDCToken e c g of
                Inl err \<Rightarrow> Returned (Inl err)
              | Inr token \<Rightarrow>
                  Returned (Inr (Header_Set (newRequest_headers req0 body h) ''Authorization''
                                   (''Bearer '' @ AccessToken token))))"
    by blast
  have "case GetOIDCToken e c g of
          Inl err \<Rightarrow> fst (newRequest e c method path body h True) = Returned (Inl err)
        | Inr token \<Rightarrow>
            (\<exists>req. fst (newRequest e c method path body h True) = Returned (Inr req) \<and>
               Header req ''Authorization'' = Some (''Bearer '' @ AccessToken token))"
    unfolding r by (simp add: Header_Set_same split: sum.split)
  with g show ?thesis
    by blast
qed

theorem admin_bearer_token_witness:
  "URL_Parse (test_env (Inr freshToken)) (baseURL publicAdmin) ''admin/realms/demo/users''
     = Inr ''https://sso.example/auth/admin/realms/demo/users'' \<and>
   (\<exists>req0. newRequest_entity (test_env (Inr freshToken)) ''GET''
              ''https://sso.example/auth/admin/realms/demo/users'' None basicHint = Returned (Inr req0)) \<and>
   authorization basicHint = ''Basic dXNlcg=='' \<and>
   (\<exists>req. fst (newRequest (test_env (Inr freshToken)) publicAdmin ''GET'' ''admin/realms/demo/users''
                  None basicHint True) = Returned (Inr req) \<and>
      Header req ''Authorization'' = Some ''Bearer abc.def'') \<and>
   fst (newRequest (test_env (Inl (Fault (Failure ''401'')))) publicAdmin ''GET'' ''admin/realms/demo/users''
          None basicHint True) = Returned (Inl (Fault (Failure ''401'')))"
proof -
  have u: "URL_Parse (test_env answer) (baseURL publicAdmin) ''admin/realms/demo/users''
             = Inr ''https://sso.example/auth/admin/realms/demo/users''" for answer
    by (simp add: test_env_def publicAdmin_def)
  have r: "newRequest_entity (test_env answer) ''GET''
             ''https://sso.example/auth/admin/realms/demo/users'' None basicHint
           = Returned (Inr \<lparr>Method = ''GET'', URL = ''https://sso.example/auth/admin/realms/demo/users'',
                             Entity = None, Header = Map.empty, Ctx = None\<rparr>)" for answer
    by (simp add: newRequest_entity_def http_NewRequest_def test_env_def)
  from admin_bearer_token [OF u r, of "Inr freshToken"]
    admin_bearer_token [OF u r, of "Inl (Fault (Failure ''401''))"] u r
  show ?thesis
    by (auto simp: test_env_def freshToken_def basicHint_def)
qed



subsection \<open>The encoder and the characters of HTML\<close>

lemma hex_not_special: "\<not> html_special (hex n)"
proof -
  have "list_all (\<lambda>ch. \<not> html_special ch) ''0123456789abcdef''"
    by (simp add: html_special_def)
  moreover have "n mod 16 < length ''0123456789abcdef''"
    by simp
  ultimately show ?thesis
    unfolding hex_def list_all_length by blast
qed

lemma special_is_ascii: "html_special b \<Longrightarrow> (of_char b :: nat) < 128"
  unfolding html_special_def by (elim disjE) simp_all

lemma not_special_chars:
  "\<not> html_special backslash" "\<not> html_special dquote"
  "\<not> html_special (CHR 0x0A)" "\<not> html_special (CHR 0xE2)" "\<not> html_special (CHR 0x80)"
  "\<not> html_special (CHR 0xA8)" "\<not> html_special (CHR 0xA9)"
  "\<not> html_special (CHR '','')" "\<not> html_special (CHR '':'')" "\<not> html_special (CHR ''-'')"
  "\<not> html_special (CHR ''['')" "\<not> html_special (CHR '']'')"
  "\<not> html_special (CHR ''{'')" "\<not> html_special (CHR ''}'')"
  "\<not> html_special (CHR ''a'')" "\<not> html_special (CHR ''d'')" "\<not> html_special (CHR ''e'')"
  "\<not> html_special (CHR ''f'')" "\<not> html_special (CHR ''l'')" "\<not> html_special (CHR ''n'')"
  "\<not> html_special (CHR ''r'')" "\<not> html_special (CHR ''s'')" "\<not> html_special (CHR ''t'')"
  "\<not> html_special (CHR ''u'')" "\<not> html_special (CHR ''0'')" "\<not> html_special (CHR ''2'')"
  "\<not> html_special (CHR ''8'')" "\<not> html_special (CHR ''9'')"
  by (simp_all add: html_special_def backslash_def dquote_def)

lemma escape_special: "html_special b \<Longrightarrow> escape_byte False b = [b]"
  unfolding html_special_def
  by (elim disjE) (simp_all add: escape_byte_def dquote_def backslash_def)

lemma escape_not_special:
  "\<not> html_special b \<Longrightarrow> filter html_special (escape_byte False b) = []"
  by (simp add: escape_byte_def hex_not_special not_special_chars)

lemma filter_escape_byte:
  "filter html_special (escape_byte False b) = filter html_special [b]"
  by (cases "html_special b") (simp_all add: escape_special escape_not_special)

lemma filter_appendString_loop_aux:
  "\<not> esc \<Longrightarrow> filter html_special (appendString_loop esc s) = filter html_special s"
proof (induction esc s rule: appendString_loop.induct)
  case 1
  show ?case by simp
next
  case (2 esc b rest)
  then have esc: "esc = False"
    by simp
  note IH = "2.IH" [unfolded esc]
  let ?n = "utf8_len (map of_char (b # rest))"
  let ?ls = "[CHR 0xE2, CHR 0x80, CHR 0xA8]"
  let ?ps = "[CHR 0xE2, CHR 0x80, CHR 0xA9]"
  have three: "filter html_special (b # rest)
                 = filter html_special (take 3 (b # rest)) @ filter html_special (drop 2 rest)"
  proof -
    have "b # rest = take 3 (b # rest) @ drop 2 rest"
      by simp
    then show ?thesis
      by (metis filter_append)
  qed
  show ?case
  proof (cases "(of_char b :: nat) < 128")
    case True
    then have eq: "appendString_loop False (b # rest)
                     = escape_byte False b @ appendString_loop False rest"
      by (simp only: appendString_loop.simps if_True simp_thms)
    have ih: "filter html_special (appendString_loop False rest) = filter html_special rest"
      using IH(1) True by simp
    show ?thesis
      unfolding esc eq filter_append ih filter_escape_byte by simp
  next
    case high: False
    then have nb: "\<not> html_special b"
      using special_is_ascii by blast
    show ?thesis
    proof (cases "?n = 0")
      case True
      with high have eq: "appendString_loop False (b # rest)
                     = backslash # ''ufffd'' @ appendString_loop False rest"
        by (simp only: appendString_loop.simps if_True if_False simp_thms)
      have ih: "filter html_special (appendString_loop False rest) = filter html_special rest"
        using IH(2) high True by simp
      show ?thesis
        unfolding esc eq using ih nb by (simp add: not_special_chars)
    next
      case valid: False
      show ?thesis
      proof (cases "take 3 (b # rest) = ?ls")
        case ls: True
        with high valid have eq: "appendString_loop False (b # rest)
                     = backslash # ''u2028'' @ appendString_loop False (drop 2 rest)"
          by (simp only: appendString_loop.simps if_True if_False simp_thms)
        have ih: "filter html_special (appendString_loop False (drop 2 rest))
                    = filter html_special (drop 2 rest)"
          using IH(3) high valid ls by simp
        have "filter html_special (take 3 (b # rest)) = []"
          unfolding ls by (simp add: not_special_chars)
        with three have "filter html_special (b # rest) = filter html_special (drop 2 rest)"
          by simp
        then show ?thesis
          unfolding esc eq using ih by (simp add: not_special_chars)
      next
        case nls: False
        show ?thesis
        proof (cases "take 3 (b # rest) = ?ps")
          case ps: True
          with high valid nls have eq: "appendString_loop False (b # rest)
                     = backslash # ''u2029'' @ appendString_loop False (drop 2 rest)"
            by (simp only: appendString_loop.simps if_True if_False simp_thms)
          have ih: "filter html_special (appendString_loop False (drop 2 rest))
                    = filter html_special (drop 2 rest)"
            using IH(4) high valid nls ps by simp
          have "filter html_special (take 3 (b # rest)) = []"
            unfolding ps by (simp add: not_special_chars)
          with three have "filter html_special (b # rest) = filter html_special (drop 2 rest)"
            by simp
          then show ?thesis
            unfolding esc eq using ih by (simp add: not_special_chars)
        next
          case nps: False
          with high valid nls have eq: "appendString_loop False (b # rest)
                     = take ?n (b # rest) @ appendString_loop False (drop (?n - 1) rest)"
            by (simp only: appendString_loop.simps if_True if_False simp_thms)
          have ih: "filter html_special (appendString_loop False (drop (?n - 1) rest))
                    = filter html_special (drop (?n - 1) rest)"
            using IH(5) high valid nls nps by simp
          have "b # rest = take ?n (b # rest) @ drop (?n - 1) rest"
            using valid by (cases ?n) simp_all
          then have "filter html_special (b # rest)
                = filter html_special (take ?n (b # rest)) @ filter html_special (drop (?n - 1) rest)"
            by (metis filter_append)
          then show ?thesis
            unfolding esc eq filter_append ih by simp
        qed
      qed
    qed
  qed
qed

lemma filter_appendString_loop:
  "filter html_special (appendString_loop False s) = filter html_special s"
  by (simp add: filter_appendString_loop_aux)

lemma filter_appendString:
  "filter html_special (appendString False s) = filter html_special s"
  by (simp add: appendString_def filter_appendString_loop not_special_chars)

lemma filter_show_nat: "filter html_special (show_nat n) = []"
proof (induction n rule: show_nat.induct)
  case (1 n)
  then show ?case
    by (subst show_nat.simps) (simp add: hex_not_special)
qed

lemma filter_show_int: "filter html_special (show_int i) = []"
  by (simp add: show_int_def filter_show_nat not_special_chars)

lemma filter_join:
  "filter P sep = [] \<Longrightarrow> filter P (join sep xs) = concat (map (filter P) xs)"
  by (induction sep xs rule: join.induct) simp_all

lemma filter_render:
  "filter html_special (render False j) = filter html_special (json_strings j)"
proof (induction j)
  case (JArray xs)
  then have "map (filter html_special) (map (render False) xs)
               = map (filter html_special) (map json_strings xs)"
    by simp
  then show ?case
    by (simp add: filter_join filter_concat not_special_chars del: map_map)
next
  case (JObject kvs)
  have "map (filter html_special)
            (map (\<lambda>(k, v). appendString False k @ '':'' @ render False v) kvs)
          = map (filter html_special) (map (\<lambda>(k, v). k @ json_strings v) kvs)"
    using JObject by (auto simp: filter_appendString not_special_chars)
  then show ?case
    by (simp add: filter_join filter_concat not_special_chars del: map_map)
qed (simp_all add: filter_appendString filter_show_int not_special_chars)

text \<open>With HTML escaping on, the encoder writes the three characters as escapes.\<close>

lemma escape_byte_html_on:
  "escape_byte True (CHR ''<'') = backslash # ''u003c''"
  "escape_byte True (CHR ''>'') = backslash # ''u003e''"
  "escape_byte True (CHR ''&'') = backslash # ''u0026''"
  by (simp_all add: escape_byte_def hex_def dquote_def backslash_def)

lemma escape_byte_html_off:
  "escape_byte False (CHR ''<'') = ''<''"
  "escape_byte False (CHR ''>'') = ''>''"
  "escape_byte False (CHR ''&'') = ''&''"
  by (simp_all add: escape_byte_def dquote_def backslash_def)

subsection \<open>The entity of the request\<close>

lemma Entity_Header_Set: "Entity (Header_Set r k v) = Entity r"
  by (simp add: Header_Set_def)

lemma Entity_newRequest_headers: "Entity (newRequest_headers r body h) = Entity r"
  by (simp add: newRequest_headers_def Let_def Entity_Header_Set)

lemma Entity_newRequest_admin:
  assumes "fst (newRequest_admin e c r) = Returned (Inr req)"
  shows "Entity req = Entity r"
proof -
  from assms newRequest_admin_result [of e c r]
  have "\<exists>v. req = Header_Set r ''Authorization'' v"
    by (cases "GetOIDCToken e c (hd (snd (newRequest_admin e c r)))") auto
  then show ?thesis
    by (auto simp: Entity_Header_Set)
qed

lemma newRequest_entity_json:
  assumes "newRequest_entity e method u (Some b) h = Returned (Inr req0)"
    and "contentType h \<noteq> formEncoded"
  shows "Entity req0 = Some (render False b @ [CHR 0x0A])"
proof -
  from assms have enc: "Encode (SetEscapeHTML NewEncoder False) b = Inr (render False b @ [CHR 0x0A])"
    by (auto simp: newRequest_entity_def Encode_def SetEscapeHTML_def NewEncoder_def
        split: if_splits)
  with assms show ?thesis
    by (auto simp: newRequest_entity_def http_NewRequest_def split: option.splits)
qed

lemma newRequest_returned_entity:
  assumes "fst (newRequest e c method path body h adm) = Returned (Inr req)"
  shows "\<exists>u req0. URL_Parse e (baseURL c) path = Inr u \<and>
           newRequest_entity e method u body h = Returned (Inr req0) \<and>
           Entity req = Entity req0"
proof -
  from newRequest_returned_request [OF assms] obtain u req0
    where u: "URL_Parse e (baseURL c) path = Inr u"
      and r: "newRequest_entity e method u body h = Returned (Inr req0)"
    by blast
  have "Entity req = Entity (newRequest_headers req0 body h)"
  proof (cases adm)
    case True
    with assms u r have "fst (newRequest_admin e c (newRequest_headers req0 body h)) = Returned (Inr req)"
      by (simp add: newRequest_def)
    then show ?thesis
      by (rule Entity_newRequest_admin)
  next
    case False
    with assms u r show ?thesis
      by (simp add: newRequest_def)
  qed
  with u r show ?thesis
    by (simp add: Entity_newRequest_headers)
qed

text \<open>
  C6. When the body is not nil and the content-type hint is not the form encoding, the
  entity of the request that \<^verbatim>\<open>newRequest\<close> returns is the text the JSON encoder writes
  for the body with HTML escaping switched off, followed by a line feed. In that text the
  characters \<^verbatim>\<open><\<close>, \<^verbatim>\<open>>\<close> and \<^verbatim>\<open>&\<close> are exactly those of the strings of the body, one
  for one and in the same order: each of them is written as itself and none is written as
  an escape.
\<close>

theorem json_entity_not_html_escaped:
  assumes "fst (newRequest e c method path (Some b) h adm) = Returned (Inr req)"
    and "contentType h \<noteq> formEncoded"
  shows "Entity req = Some (render False b @ [CHR 0x0A]) \<and>
         filter html_special (render False b @ [CHR 0x0A]) = filter html_special (json_strings b)"
proof -
  from newRequest_returned_entity [OF assms(1)] obtain u req0
    where "newRequest_entity e method u (Some b) h = Returned (Inr req0)"
      and "Entity req = Entity req0"
    by blast
  with assms(2) have "Entity req = Some (render False b @ [CHR 0x0A])"
    by (simp add: newRequest_entity_json)
  then show ?thesis
    by (simp add: filter_render not_special_chars)
qed

theorem json_entity_not_html_escaped_witness:
  \<open>fst (newRequest (test_env (Inr freshToken)) publicAdmin ''POST'' ''realms/demo/notes''
          (Some (JObject [(''name'', JString ''a<b>&c'')])) basicHint False)
     = Returned (Inr \<lparr>Method = ''POST'', URL = ''https://sso.example/auth/realms/demo/notes'',
                       Entity = Some (''{"name":"a<b>&c"}'' @ [CHR 0x0A]),
                       Header = [''Content-Type'' \<mapsto> ''application/json'',
                                 ''Authorization'' \<mapsto> ''Basic dXNlcg==''],
                       Ctx = None\<rparr>) \<and>
   contentType basicHint \<noteq> formEncoded \<and>
   render False (JObject [(''name'', JString ''a<b>&c'')]) = ''{"name":"a<b>&c"}'' \<and>
   filter html_special (''{"name":"a<b>&c"}'' @ [CHR 0x0A]) = ''<>&''\<close>
proof -
  have r: \<open>fst (newRequest (test_env (Inr freshToken)) publicAdmin ''POST'' ''realms/demo/notes''
          (Some (JObject [(''name'', JString ''a<b>&c'')])) basicHint False)
     = Returned (Inr \<lparr>Method = ''POST'', URL = ''https://sso.example/auth/realms/demo/notes'',
                       Entity = Some (''{"name":"a<b>&c"}'' @ [CHR 0x0A]),
                       Header = [''Content-Type'' \<mapsto> ''application/json'',
                                 ''Authorization'' \<mapsto> ''Basic dXNlcg==''],
                       Ctx = None\<rparr>)\<close>
    by (simp add: builder_run formEncoded_def Encode_def SetEscapeHTML_def NewEncoder_def
        appendString_def escape_byte_def dquote_def backslash_def)
  have n: "contentType basicHint \<noteq> formEncoded"
    by (simp add: basicHint_def formEncoded_def)
  from json_entity_not_html_escaped [OF r n] r n show ?thesis
    by (simp add: html_special_def)
qed

section \<open>Properties of the executor\<close>

subsection \<open>The paths through \<^verbatim>\<open>do\<close>\<close>

lemma do_transport_error_context_done:
  assumes "httpClient_Do e (WithContext req ctx) = (resp, Some err)" and "Err ctx = Some cerr"
  shows "do e ctx req v = Returned (None, Some (Fault cerr), v)"
  using assms by (simp add: do_def)

lemma do_transport_error_nil_response:
  assumes "httpClient_Do e (WithContext req ctx) = (None, Some err)" and "Err ctx = None"
  shows "do e ctx req v = Panic"
  using assms by (simp add: do_def)

lemma do_error_status:
  assumes "httpClient_Do e (WithContext req ctx) = (Some r, None)"
    and "300 \<le> StatusCode r"
  shows "do e ctx req v =
           Returned (None,
             Some (UpstreamError
               (case read_error (Body r) of
                  None \<Rightarrow> json_Unmarshal e (content (Body r)) \<lparr>err_Response = Some r, Message = []\<rparr>
                | Some rerr \<Rightarrow> \<lparr>err_Response = Some r, Message = []\<rparr>)),
             v)"
  using assms by (simp add: do_def ioutil_ReadAll_def Let_def split: option.split)

lemma do_nil_target:
  assumes "httpClient_Do e (WithContext req ctx) = (Some r, None)"
    and "StatusCode r < 300"
  shows "do e ctx req NilTarget = Returned (Some \<lparr>Response = r\<rparr>, None, NilTarget)"
  using assms by (simp add: do_def Let_def)

lemma do_writer_target:
  assumes "httpClient_Do e (WithContext req ctx) = (Some r, None)"
    and "StatusCode r < 300"
  shows "do e ctx req (WriterTarget w)
           = Returned (Some \<lparr>Response = r\<rparr>, None, WriterTarget (fst (io_Copy w (Body r))))"
  using assms by (simp add: do_def Let_def split: prod.split)

lemma do_decode_target:
  assumes "httpClient_Do e (WithContext req ctx) = (Some r, None)"
    and "StatusCode r < 300"
    and "json_Decode e (Body r) x = (x', decErr)"
  shows "do e ctx req (DecodeTarget x) =
           Returned (Some \<lparr>Response = r\<rparr>,
                     map_option Fault (if decErr = Some EOF then None else decErr),
                     DecodeTarget x')"
  using assms by (simp add: do_def Let_def)

subsection \<open>Decoding the error body\<close>

lemma json_Unmarshal_invalid:
  "list_all isSpace data \<or> json_parse e data = None \<Longrightarrow> json_Unmarshal e data er = er"
  by (auto simp: json_Unmarshal_def)

lemma json_Unmarshal_object:
  "\<not> list_all isSpace data \<Longrightarrow> json_parse e data = Some (JObject ms)
   \<Longrightarrow> json_Unmarshal e data er = foldl (assign_member e) er ms"
  by (simp add: json_Unmarshal_def)

lemma assign_member_other_field:
  "find_field e k \<noteq> Some Response_field
   \<Longrightarrow> err_Response (assign_member e er (k, v)) = err_Response er"
  "find_field e k \<noteq> Some Message_field
   \<Longrightarrow> Message (assign_member e er (k, v)) = Message er"
  by (simp_all split: option.split field.split json.split)

lemma foldl_keeps_Response:
  "no_member e Response_field ms
   \<Longrightarrow> err_Response (foldl (assign_member e) er ms) = err_Response er"
proof (induction ms arbitrary: er)
  case Nil
  show ?case by simp
next
  case (Cons m ms)
  obtain k v where m: "m = (k, v)"
    by (cases m)
  from Cons.prems have "find_field e k \<noteq> Some Response_field" and "no_member e Response_field ms"
    by (simp_all add: no_member_def m)
  then show ?case
    using Cons.IH [of "assign_member e er (k, v)"] assign_member_other_field(1) [of e k er v]
    by (simp add: m del: assign_member.simps)
qed

lemma foldl_keeps_Message:
  "no_member e Message_field ms
   \<Longrightarrow> Message (foldl (assign_member e) er ms) = Message er"
proof (induction ms arbitrary: er)
  case Nil
  show ?case by simp
next
  case (Cons m ms)
  obtain k v where m: "m = (k, v)"
    by (cases m)
  from Cons.prems have "find_field e k \<noteq> Some Message_field" and "no_member e Message_field ms"
    by (simp_all add: no_member_def m)
  then show ?case
    using Cons.IH [of "assign_member e er (k, v)"] assign_member_other_field(2) [of e k er v]
    by (simp add: m del: assign_member.simps)
qed

lemma assign_error_description:
  "Message (assign_member e er (''error_description'', JString msg)) = msg"
  by (simp add: find_field_def)

lemma foldl_last_error_description:
  assumes "no_member e Message_field post"
  shows "Message (foldl (assign_member e) er (pre @ (''error_description'', JString msg) # post)) = msg"
  using foldl_keeps_Message [OF assms] assign_error_description
  by (simp del: assign_member.simps)

subsection \<open>What \<^verbatim>\<open>do\<close> returns\<close>

lemmas exec_run =
  do_def test_exec_def test_parse_def documents_def background_def cancelled_def getUsers_def
  respond_def WithContext_def read_error_def ioutil_ReadAll_def io_Copy_def json_Decode_def
  json_Unmarshal_def
  find_field_def isSpace_def appendString_def escape_byte_def dquote_def backslash_def Let_def

text \<open>
  C1. After a transport error \<^verbatim>\<open>do\<close> returns only when the context is done, and then it
  returns the context's error. With a context that is not done it does not return the
  transport error: on a nil response it panics at \<^verbatim>\<open>defer resp.Body.Close()\<close>, and on a
  response that came with the error (a refused redirect) it goes on to classify the
  response and returns an \<^verbatim>\<open>ErrorResponse\<close> in place of the transport error.
\<close>

theorem transport_error_falls_through:
  "do (test_exec (None, Some (Failure ''connection refused''))) background getUsers NilTarget = Panic \<and>
   do (test_exec (Some \<lparr>StatusCode = 302,
                        Body = \<lparr>content = [], readErr = Some (Failure ''read on closed response body'')\<rparr>\<rparr>,
                  Some (Failure ''stopped after 10 redirects''))) background getUsers NilTarget
     = Returned (None,
         Some (UpstreamError
           \<lparr>err_Response = Some \<lparr>StatusCode = 302,
                Body = \<lparr>content = [], readErr = Some (Failure ''read on closed response body'')\<rparr>\<rparr>,
            Message = []\<rparr>),
         NilTarget) \<and>
   do (test_exec (None, Some (Failure ''connection refused''))) cancelled getUsers NilTarget
     = Returned (None, Some (Fault Canceled), NilTarget)"
  by (simp add: exec_run)

text \<open>
  The two sides of the status boundary, for every environment. With a status below 300
  \<^verbatim>\<open>do\<close> returns the response wrapper; without a target and with a writer its error
  is nil, and with a decode target its error is nil when the decoder reports none or
  \<^verbatim>\<open>io.EOF\<close>, and is the decoder's error otherwise. With a status of 300 or more
  \<^verbatim>\<open>do\<close> returns no wrapper and an \<^verbatim>\<open>ErrorResponse\<close>. When the body is unreadable,
  empty or white space, or not valid JSON, that \<^verbatim>\<open>ErrorResponse\<close> holds the raw
  response and an empty message. When the body is a JSON object, the message is the
  string of the member \<^verbatim>\<open>error_description\<close>, the last one if there are several; the
  raw response is kept as long as no member of the object goes to the field
  \<^verbatim>\<open>Response\<close>.
\<close>

lemma do_status_paths:
  assumes "httpClient_Do e (WithContext req ctx) = (Some r, None)"
  shows "(StatusCode r < 300 \<longrightarrow>
            (\<exists>err v'. do e ctx req v = Returned (Some \<lparr>Response = r\<rparr>, err, v') \<and>
               (v = NilTarget \<longrightarrow> err = None) \<and>
               (\<forall>w. v = WriterTarget w \<longrightarrow> err = None) \<and>
               (\<forall>x x' decErr. v = DecodeTarget x \<and> json_Decode e (Body r) x = (x', decErr)
                  \<longrightarrow> err = map_option Fault (if decErr = Some EOF then None else decErr)))) \<and>
         (300 \<le> StatusCode r \<longrightarrow>
            (\<exists>er. do e ctx req v = Returned (None, Some (UpstreamError er), v) \<and>
               (read_error (Body r) \<noteq> None \<or> list_all isSpace (content (Body r)) \<or>
                json_parse e (content (Body r)) = None
                  \<longrightarrow> er = \<lparr>err_Response = Some r, Message = []\<rparr>) \<and>
               (\<forall>ms. read_error (Body r) = None \<and> \<not> list_all isSpace (content (Body r)) \<and>
                     json_parse e (content (Body r)) = Some (JObject ms)
                  \<longrightarrow> (no_member e Response_field ms \<longrightarrow> err_Response er = Some r) \<and>
                      (\<forall>pre msg post.
                         ms = pre @ (''error_description'', JString msg) # post \<and>
                         no_member e Message_field post
                           \<longrightarrow> Message er = msg))))"
proof (intro conjI impI)
  assume ok: "StatusCode r < 300"
  show "\<exists>err v'. do e ctx req v = Returned (Some \<lparr>Response = r\<rparr>, err, v') \<and>
               (v = NilTarget \<longrightarrow> err = None) \<and>
               (\<forall>w. v = WriterTarget w \<longrightarrow> err = None) \<and>
               (\<forall>x x' decErr. v = DecodeTarget x \<and> json_Decode e (Body r) x = (x', decErr)
                  \<longrightarrow> err = map_option Fault (if decErr = Some EOF then None else decErr))"
  proof (cases v)
    case NilTarget
    then show ?thesis
      using do_nil_target [OF assms ok] by simp
  next
    case (WriterTarget w)
    then show ?thesis
      using do_writer_target [OF assms ok] by simp
  next
    case (DecodeTarget x)
    obtain x' decErr where d: "json_Decode e (Body r) x = (x', decErr)"
      by (cases "json_Decode e (Body r) x")
    show ?thesis
      using do_decode_target [OF assms ok d] DecodeTarget d by simp
  qed
next
  assume bad: "300 \<le> StatusCode r"
  let ?fresh = "\<lparr>err_Response = Some r, Message = []\<rparr>"
  let ?result = "case read_error (Body r) of
               None \<Rightarrow> json_Unmarshal e (content (Body r)) ?fresh
             | Some rerr \<Rightarrow> ?fresh"
  have run: "do e ctx req v = Returned (None, Some (UpstreamError ?result), v)"
    by (rule do_error_status [OF assms bad])
  have a: "read_error (Body r) \<noteq> None \<or> list_all isSpace (content (Body r)) \<or>
             json_parse e (content (Body r)) = None \<longrightarrow> ?result = ?fresh"
    by (auto simp: json_Unmarshal_invalid split: option.split)
  have b: "(no_member e Response_field ms \<longrightarrow> err_Response ?result = Some r) \<and>
             (\<forall>pre msg post.
                ms = pre @ (''error_description'', JString msg) # post \<and>
                no_member e Message_field post \<longrightarrow> Message ?result = msg)"
    if h: "read_error (Body r) = None \<and> \<not> list_all isSpace (content (Body r)) \<and>
           json_parse e (content (Body r)) = Some (JObject ms)"
    for ms
  proof -
    from h have er: "?result = foldl (assign_member e) ?fresh ms"
      by (simp add: json_Unmarshal_object)
    show ?thesis
      unfolding er
    proof (intro conjI allI impI)
      assume "no_member e Response_field ms"
      then show "err_Response (foldl (assign_member e) ?fresh ms) = Some r"
        by (simp add: foldl_keeps_Response)
    next
      fix pre msg post
      assume "ms = pre @ (''error_description'', JString msg) # post \<and>
              no_member e Message_field post"
      then have ms: "ms = pre @ (''error_description'', JString msg) # post"
        and nm: "no_member e Message_field post"
        by simp_all
      show "Message (foldl (assign_member e) ?fresh ms) = msg"
        unfolding ms by (rule foldl_last_error_description [OF nm])
    qed
  qed
  show "\<exists>er. do e ctx req v = Returned (None, Some (UpstreamError er), v) \<and>
               (read_error (Body r) \<noteq> None \<or> list_all isSpace (content (Body r)) \<or>
                json_parse e (content (Body r)) = None
                  \<longrightarrow> er = \<lparr>err_Response = Some r, Message = []\<rparr>) \<and>
               (\<forall>ms. read_error (Body r) = None \<and> \<not> list_all isSpace (content (Body r)) \<and>
                     json_parse e (content (Body r)) = Some (JObject ms)
                  \<longrightarrow> (no_member e Response_field ms \<longrightarrow> err_Response er = Some r) \<and>
                      (\<forall>pre msg post.
                         ms = pre @ (''error_description'', JString msg) # post \<and>
                         no_member e Message_field post
                           \<longrightarrow> Message er = msg))"
  proof (intro exI [of _ ?result] conjI allI impI)
    show "do e ctx req v = Returned (None, Some (UpstreamError ?result), v)"
      by (rule run)
  next
    assume "read_error (Body r) \<noteq> None \<or> list_all isSpace (content (Body r)) \<or>
            json_parse e (content (Body r)) = None"
    with a show "?result = ?fresh"
      by (rule mp)
  next
    fix ms
    assume "read_error (Body r) = None \<and> \<not> list_all isSpace (content (Body r)) \<and>
           json_parse e (content (Body r)) = Some (JObject ms)"
      and "no_member e Response_field ms"
    with b show "err_Response ?result = Some r"
      by blast
  next
    fix ms pre msg post
    assume "read_error (Body r) = None \<and> \<not> list_all isSpace (content (Body r)) \<and>
           json_parse e (content (Body r)) = Some (JObject ms)"
      and "ms = pre @ (''error_description'', JString msg) # post \<and> no_member e Message_field post"
    with b show "Message ?result = msg"
      by blast
  qed
qed

text \<open>
  A body whose only member is \<^verbatim>\<open>Response\<close> with the value \<^verbatim>\<open>null\<close>: whatever the
  environment, the \<^verbatim>\<open>ErrorResponse\<close> that \<^verbatim>\<open>do\<close> returns has lost the raw response.
\<close>

lemma do_null_Response:
  assumes "httpClient_Do e (WithContext req ctx) = (Some r, None)"
    and "300 \<le> StatusCode r"
    and "read_error (Body r) = None"
    and "\<not> list_all isSpace (content (Body r))"
    and "json_parse e (content (Body r)) = Some (JObject [(''Response'', JNull)])"
  shows "do e ctx req v
           = Returned (None, Some (UpstreamError \<lparr>err_Response = None, Message = []\<rparr>), v)"
  unfolding do_error_status [OF assms(1,2)]
  using assms(3-5) by (simp add: json_Unmarshal_def find_field_def)

text \<open>
  C2. The status boundary lies between 299 and 300: a status of 299 is a success, and a
  status of 300 is an error with no wrapper and an \<^verbatim>\<open>ErrorResponse\<close> that holds the raw
  response and the \<^verbatim>\<open>error_description\<close> of the body. But the \<^verbatim>\<open>ErrorResponse\<close> does
  not always hold the raw response: the field \<^verbatim>\<open>Response\<close> is exported and has no
  \<^verbatim>\<open>json:"-"\<close> tag, so \<^verbatim>\<open>json.Unmarshal\<close> assigns a member of that name to it. On a
  status of 400 with the body \<^verbatim>\<open>{"Response":null}\<close> the pointer set at line 310 is
  overwritten with nil, \<^verbatim>\<open>do\<close> returns an \<^verbatim>\<open>ErrorResponse\<close> without a response, and the
  \<^verbatim>\<open>Error\<close> method of the returned error panics.
\<close>

theorem error_body_overwrites_Response:
  "do (test_exec (Some (respond 400 nullResponseBody), None)) background getUsers NilTarget
     = Returned (None, Some (UpstreamError \<lparr>err_Response = None, Message = []\<rparr>), NilTarget) \<and>
   Error requestOf \<lparr>err_Response = None, Message = []\<rparr> = Panic \<and>
   do (test_exec (Some (respond 300 errorBody), None)) background getUsers NilTarget
     = Returned (None,
         Some (UpstreamError \<lparr>err_Response = Some (respond 300 errorBody), Message = ''bad request''\<rparr>),
         NilTarget) \<and>
   Error requestOf \<lparr>err_Response = Some (respond 300 errorBody), Message = ''bad request''\<rparr>
     = Returned ''GET https://sso.example/auth/admin/realms/demo/users: 300 bad request'' \<and>
   do (test_exec (Some (respond 299 errorBody), None)) background getUsers (DecodeTarget JNull)
     = Returned (Some \<lparr>Response = respond 299 errorBody\<rparr>, None,
         DecodeTarget (JObject [(''error_description'', JString ''bad request'')]))"
proof (intro conjI)
  show "do (test_exec (Some (respond 400 nullResponseBody), None)) background getUsers NilTarget
     = Returned (None, Some (UpstreamError \<lparr>err_Response = None, Message = []\<rparr>), NilTarget)"
    by (simp add: exec_run nullResponseBody_def)
  show "Error requestOf \<lparr>err_Response = None, Message = []\<rparr> = Panic"
    by (simp add: Error_def)
  show "do (test_exec (Some (respond 300 errorBody), None)) background getUsers NilTarget
     = Returned (None,
         Some (UpstreamError \<lparr>err_Response = Some (respond 300 errorBody), Message = ''bad request''\<rparr>),
         NilTarget)"
    by (simp add: exec_run errorBody_def)
  show "Error requestOf \<lparr>err_Response = Some (respond 300 errorBody), Message = ''bad request''\<rparr>
     = Returned ''GET https://sso.example/auth/admin/realms/demo/users: 300 bad request''"
    by (simp add: Error_def requestOf_def getUsers_def respond_def show_int_def show_nat.simps
        hex_def)
  show "do (test_exec (Some (respond 299 errorBody), None)) background getUsers (DecodeTarget JNull)
     = Returned (Some \<lparr>Response = respond 299 errorBody\<rparr>, None,
         DecodeTarget (JObject [(''error_description'', JString ''bad request'')]))"
    by (simp add: exec_run errorBody_def)
qed

text \<open>
  C5. With a status below 300 and a writer as the target, \<^verbatim>\<open>do\<close> calls \<^verbatim>\<open>io.Copy\<close> and
  drops both of its results: when the body breaks off while it is read, and when the
  writer refuses the bytes, \<^verbatim>\<open>io.Copy\<close> reports the error and \<^verbatim>\<open>do\<close> still returns the
  response with a nil error.
\<close>

theorem copy_error_dropped:
  "io_Copy \<lparr>written = [], writeErr = None\<rparr> \<lparr>content = ''part'', readErr = Some (Failure ''connection reset'')\<rparr>
     = (\<lparr>written = ''part'', writeErr = None\<rparr>, Some (Failure ''connection reset'')) \<and>
   do (test_exec (Some \<lparr>StatusCode = 200,
                        Body = \<lparr>content = ''part'', readErr = Some (Failure ''connection reset'')\<rparr>\<rparr>, None))
      background getUsers (WriterTarget \<lparr>written = [], writeErr = None\<rparr>)
     = Returned (Some \<lparr>Response = \<lparr>StatusCode = 200,
                        Body = \<lparr>content = ''part'', readErr = Some (Failure ''connection reset'')\<rparr>\<rparr>\<rparr>,
                 None,
                 WriterTarget \<lparr>written = ''part'', writeErr = None\<rparr>) \<and>
   io_Copy \<lparr>written = [], writeErr = Some (Failure ''disk full'')\<rparr> (Body (respond 200 ''whole''))
     = (\<lparr>written = [], writeErr = Some (Failure ''disk full'')\<rparr>, Some (Failure ''disk full'')) \<and>
   do (test_exec (Some (respond 200 ''whole''), None)) background getUsers
      (WriterTarget \<lparr>written = [], writeErr = Some (Failure ''disk full'')\<rparr>)
     = Returned (Some \<lparr>Response = respond 200 ''whole''\<rparr>, None,
                 WriterTarget \<lparr>written = [], writeErr = Some (Failure ''disk full'')\<rparr>)"
  by (simp add: exec_run)

text \<open>
  C7. When the dispatch succeeds with a status below 300 and an empty body, and the target
  is a value to decode into, \<^verbatim>\<open>do\<close> returns the response with a nil error and the target
  is what it was.
\<close>

theorem empty_body_target_untouched:
  assumes "httpClient_Do e (WithContext req ctx) = (Some r, None)"
    and "StatusCode r < 300"
    and "content (Body r) = []" and "readErr (Body r) = None"
  shows "do e ctx req (DecodeTarget x) = Returned (Some \<lparr>Response = r\<rparr>, None, DecodeTarget x)"
proof -
  have "json_Decode e (Body r) x = (x, Some EOF)"
    using assms(3,4) by (simp add: json_Decode_def)
  from do_decode_target [OF assms(1,2) this] show ?thesis
    by simp
qed

theorem empty_body_target_untouched_witness:
  "httpClient_Do (test_exec (Some (respond 204 []), None)) (WithContext getUsers background)
     = (Some (respond 204 []), None) \<and>
   StatusCode (respond 204 []) < 300 \<and> content (Body (respond 204 [])) = [] \<and>
   readErr (Body (respond 204 [])) = None \<and>
   do (test_exec (Some (respond 204 []), None)) background getUsers (DecodeTarget (JNumber 5))
     = Returned (Some \<lparr>Response = respond 204 []\<rparr>, None, DecodeTarget (JNumber 5))"
proof -
  have a: "httpClient_Do (test_exec (Some (respond 204 []), None)) (WithContext getUsers background)
     = (Some (respond 204 []), None)"
    by (simp add: test_exec_def)
  have b: "StatusCode (respond 204 []) < 300" "content (Body (respond 204 [])) = []"
    "readErr (Body (respond 204 [])) = None"
    by (simp_all add: respond_def)
  from empty_body_target_untouched [OF a b, of "JNumber 5"] a b show ?thesis
    by simp
qed

text \<open>
  C8. When the dispatch succeeds with a status below 300, the target is a value to decode
  into, and the decoder reports an error other than \<^verbatim>\<open>io.EOF\<close>, \<^verbatim>\<open>do\<close> returns that error
  together with the response wrapper, which is not nil. (The decoder reports \<^verbatim>\<open>io.EOF\<close>
  for a body that ends before any byte other than white space, and \<^verbatim>\<open>do\<close> takes that for
  an empty response.)
\<close>

theorem decode_failure_surfaced:
  assumes "httpClient_Do e (WithContext req ctx) = (Some r, None)"
    and "StatusCode r < 300"
    and "json_Decode e (Body r) x = (x', Some err)" and "err \<noteq> EOF"
  shows "do e ctx req (DecodeTarget x) = Returned (Some \<lparr>Response = r\<rparr>, Some (Fault err), DecodeTarget x')"
  using do_decode_target [OF assms(1,2,3)] assms(4) by simp

theorem decode_failure_surfaced_witness:
  "httpClient_Do (test_exec (Some (respond 200 ''{bad''), None)) (WithContext getUsers background)
     = (Some (respond 200 ''{bad''), None) \<and>
   StatusCode (respond 200 ''{bad'') < 300 \<and>
   json_Decode (test_exec (Some (respond 200 ''{bad''), None)) (Body (respond 200 ''{bad'')) (JNumber 5)
     = (JNumber 5, Some (Failure ''invalid character'')) \<and>
   Failure ''invalid character'' \<noteq> EOF \<and>
   do (test_exec (Some (respond 200 ''{bad''), None)) background getUsers (DecodeTarget (JNumber 5))
     = Returned (Some \<lparr>Response = respond 200 ''{bad''\<rparr>, Some (Fault (Failure ''invalid character'')),
                 DecodeTarget (JNumber 5))"
proof -
  have a: "httpClient_Do (test_exec (Some (respond 200 ''{bad''), None)) (WithContext getUsers background)
     = (Some (respond 200 ''{bad''), None)"
    by (simp add: test_exec_def)
  have b: "StatusCode (respond 200 ''{bad'') < 300"
    by (simp add: respond_def)
  have c: "json_Decode (test_exec (Some (respond 200 ''{bad''), None)) (Body (respond 200 ''{bad'')) (JNumber 5)
     = (JNumber 5, Some (Failure ''invalid character''))"
    by (simp add: exec_run)
  have d: "Failure ''invalid character'' \<noteq> EOF"
    by simp
  from decode_failure_surfaced [OF a b c d] a b c d show ?thesis
    by simp
qed

text \<open>
  A body that is not empty and does not decode, and yet no error: a single line feed, with
  a status of 200. The decoder reports \<^verbatim>\<open>io.EOF\<close> and leaves the target alone, and \<^verbatim>\<open>do\<close>
  returns a nil error.
\<close>

theorem white_space_body_counterexample:
  "StatusCode (respond 200 [CHR 0x0A]) < 300 \<and> content (Body (respond 200 [CHR 0x0A])) \<noteq> [] \<and>
   json_Decode (test_exec (Some (respond 200 [CHR 0x0A]), None)) (Body (respond 200 [CHR 0x0A])) (JNumber 5)
     = (JNumber 5, Some EOF) \<and>
   do (test_exec (Some (respond 200 [CHR 0x0A]), None)) background getUsers (DecodeTarget (JNumber 5))
     = Returned (Some \<lparr>Response = respond 200 [CHR 0x0A]\<rparr>, None, DecodeTarget (JNumber 5))"
  by (simp add: exec_run)

end
